theory Spec2Isabelle
  imports Main
begin

section \<open>Python values: strings, JSON, exceptions\<close>

text \<open>
  A Python \<open>str\<close> is a sequence of Unicode code points. The user's text, the model's
  replies and the messages of the program are Chinese, so a string is modelled as the list
  of its code points; \<open>lit\<close> writes an ASCII literal.
\<close>

type_synonym pystr = "nat list"

definition lit :: "string \<Rightarrow> pystr" where
  "lit s = map of_char s"

text \<open>
  \<open>str.strip()\<close> without arguments removes leading and trailing characters for which
  \<open>str.isspace()\<close> holds. These are exactly the following code points.
\<close>

definition isspace :: "nat \<Rightarrow> bool" where
  "isspace c \<longleftrightarrow>
     (9 \<le> c \<and> c \<le> 13) \<or> (28 \<le> c \<and> c \<le> 32) \<or> c = 133 \<or> c = 160 \<or> c = 5760 \<or>
     (8192 \<le> c \<and> c \<le> 8202) \<or> c = 8232 \<or> c = 8233 \<or> c = 8239 \<or> c = 8287 \<or> c = 12288"

definition strip :: "pystr \<Rightarrow> pystr" where
  "strip s = rev (dropWhile isspace (rev (dropWhile isspace s)))"

text \<open>
  What \<open>json.loads\<close> returns: \<open>None\<close>, \<open>bool\<close>, \<open>int\<close>, \<open>float\<close> (kept as the text of
  its literal, since no code here computes with it), \<open>str\<close>, \<open>list\<close> and \<open>dict\<close>.
  A \<open>dict\<close> is the list of its items; lookup takes the first item with the key.
\<close>

datatype json =
    JNull
  | JBool bool
  | JInt int
  | JFloat pystr
  | JString pystr
  | JArray "json list"
  | JObject "(pystr \<times> json) list"

text \<open>
  What a call can raise, each with its \<open>str(e)\<close>. The first five are of class
  \<open>Exception\<close>: \<open>AttributeError\<close>, \<open>KeyError\<close>, \<open>IndexError\<close> and \<open>TypeError\<close> are what
  the program's own method calls and subscripts raise on a value of the wrong shape, and
  \<open>Exception\<close> stands for any other exception of that class that an external
  collaborator raises (a syntax error of \<open>eval\<close>, a network error, a validation error).
  \<open>SystemExit\<close> and \<open>KeyboardInterrupt\<close> derive from \<open>BaseException\<close> only: an
  \<open>except Exception\<close> clause does not catch them.
\<close>

datatype exn =
    AttributeError pystr
  | KeyError pystr
  | IndexError pystr
  | TypeError pystr
  | Exception pystr
  | SystemExit pystr
  | KeyboardInterrupt

text \<open>\<open>isinstance(e, Exception)\<close>: what \<open>except Exception\<close> catches.\<close>

fun is_Exception :: "exn \<Rightarrow> bool" where
  "is_Exception (SystemExit m) = False"
| "is_Exception KeyboardInterrupt = False"
| "is_Exception e = True"

fun str_of_exn :: "exn \<Rightarrow> pystr" where
  "str_of_exn (AttributeError m) = m"
| "str_of_exn (KeyError m) = m"
| "str_of_exn (IndexError m) = m"
| "str_of_exn (TypeError m) = m"
| "str_of_exn (Exception m) = m"
| "str_of_exn (SystemExit m) = m"
| "str_of_exn KeyboardInterrupt = []"

text \<open>Sequencing: the first call that raises ends the block.\<close>

fun and_then :: "exn + 'a \<Rightarrow> ('a \<Rightarrow> exn + 'b) \<Rightarrow> exn + 'b" where
  "and_then (Inl e) f = Inl e"
| "and_then (Inr x) f = f x"

fun type_name :: "json \<Rightarrow> pystr" where
  "type_name JNull = lit ''NoneType''"
| "type_name (JBool b) = lit ''bool''"
| "type_name (JInt i) = lit ''int''"
| "type_name (JFloat f) = lit ''float''"
| "type_name (JString s) = lit ''str''"
| "type_name (JArray xs) = lit ''list''"
| "type_name (JObject kvs) = lit ''dict''"

text \<open>A text between single quotes, as in the messages of the interpreter.\<close>

definition quoted :: "pystr \<Rightarrow> pystr" where
  "quoted t = lit [CHR 0x27] @ t @ lit [CHR 0x27]"

definition no_attribute :: "json \<Rightarrow> string \<Rightarrow> exn" where
  "no_attribute j a =
     AttributeError (quoted (type_name j) @ lit '' object has no attribute '' @ quoted (lit a))"

text \<open>\<open>d.get(k, default)\<close>: only a \<open>dict\<close> has the method.\<close>

fun dict_get :: "json \<Rightarrow> pystr \<Rightarrow> json \<Rightarrow> exn + json" where
  "dict_get (JObject kvs) k d = Inr (case map_of kvs k of Some v \<Rightarrow> v | None \<Rightarrow> d)"
| "dict_get j k d = Inl (no_attribute j ''get'')"

text \<open>\<open>v.strip()\<close>: among the values of \<open>json.loads\<close>, only a \<open>str\<close> has the method.\<close>

fun str_strip :: "json \<Rightarrow> exn + pystr" where
  "str_strip (JString s) = Inr (strip s)"
| "str_strip j = Inl (no_attribute j ''strip'')"

text \<open>
  Subscripts. \<open>v[k]\<close> for a string literal \<open>k\<close>: a \<open>dict\<close> gives the value or raises
  \<open>KeyError\<close>, whose text is the key between quotes; no other value takes a string
  subscript. \<open>v[0]\<close>: a \<open>list\<close> or a \<open>str\<close> gives its first element or raises
  \<open>IndexError\<close>; a \<open>dict\<close> of \<open>json.loads\<close> has string keys only, so \<open>0\<close> is a missing key.
\<close>

definition not_subscriptable :: "json \<Rightarrow> exn" where
  "not_subscriptable j = TypeError (quoted (type_name j) @ lit '' object is not subscriptable'')"

fun getitem_key :: "json \<Rightarrow> string \<Rightarrow> exn + json" where
  "getitem_key (JObject kvs) k =
     (case map_of kvs (lit k) of Some v \<Rightarrow> Inr v | None \<Rightarrow> Inl (KeyError (quoted (lit k))))"
| "getitem_key (JArray xs) k = Inl (TypeError (lit ''list indices must be integers or slices, not str''))"
| "getitem_key (JString t) k =
     Inl (TypeError (lit ''string indices must be integers, not '' @ quoted (lit ''str'')))"
| "getitem_key j k = Inl (not_subscriptable j)"

fun getitem_0 :: "json \<Rightarrow> exn + json" where
  "getitem_0 (JObject kvs) = Inl (KeyError (lit ''0''))"
| "getitem_0 (JArray xs) =
     (case xs of [] \<Rightarrow> Inl (IndexError (lit ''list index out of range'')) | x # rest \<Rightarrow> Inr x)"
| "getitem_0 (JString t) =
     (case t of [] \<Rightarrow> Inl (IndexError (lit ''string index out of range'')) | c # rest \<Rightarrow> Inr (JString [c]))"
| "getitem_0 j = Inl (not_subscriptable j)"

section \<open>The agent state\<close>

datatype message = HumanMessage pystr | AIMessage pystr | SystemMessage pystr

record AgentState =
  user_input :: pystr
  chat_history :: "message list"
  tool_name :: pystr
  tool_input :: json
  tool_result :: pystr
  final_answer :: pystr

definition get_initial_state :: AgentState where
  "get_initial_state =
     \<lparr>user_input = [], chat_history = [], tool_name = [], tool_input = JObject [],
      tool_result = [], final_answer = []\<rparr>"

section \<open>External collaborators\<close>

text \<open>
  What the program calls and does not define; each call either returns or raises.
  \<^item> \<open>llm\<close> is \<open>(prompt | llm).invoke(...).content\<close> on the prompt's messages;
  \<^item> \<open>json_loads\<close> is \<open>json.loads\<close>;
  \<^item> \<open>py_eval\<close> is \<open>eval(expression, globals, locals)\<close>, its value as the text that the
    f-string of \<open>calculator\<close> renders;
  \<^item> \<open>http_get_json\<close> is \<open>requests.get(url, timeout=5)\<close>, \<open>raise_for_status()\<close> and
    \<open>response.json()\<close>;
  \<^item> \<open>tool_argument\<close> is the part of \<open>invoke\<close> that LangChain's \<open>@tool\<close> adds to a
    function: it checks \<open>tool_input\<close> against the function's one string parameter and
    gives the argument, or raises;
  \<^item> \<open>py_str\<close> is \<open>str()\<close> of a value that is not a \<open>str\<close>, as an f-string renders it.
\<close>

record collaborators =
  llm :: "message list \<Rightarrow> exn + pystr"
  json_loads :: "pystr \<Rightarrow> exn + json"
  py_eval :: "pystr \<Rightarrow> (pystr \<times> json) list \<Rightarrow> (pystr \<times> json) list \<Rightarrow> exn + pystr"
  http_get_json :: "pystr \<Rightarrow> exn + json"
  tool_argument :: "string \<Rightarrow> json \<Rightarrow> exn + pystr"
  py_str :: "json \<Rightarrow> pystr"

section \<open>The message texts of the program\<close>

definition unknown_tool_text :: pystr where
  "unknown_tool_text = [26410, 30693, 24037, 20855, 65306]"

definition tool_error_text :: pystr where
  "tool_error_text = [24037, 20855, 25191, 34892, 20986, 38169, 65306]"

definition clarification :: pystr where
  "clarification =
     [35831, 38382, 20320, 26377, 20160, 20040, 20855, 20307, 38382, 39064, 38656, 35201,
      24110, 21161, 65311, 27604, 22914, 26597, 35810, 26576, 20010, 22478, 24066, 30340,
      22825, 27668, 65292, 25110, 25191, 34892, 25968, 23398, 35745, 31639, 12290]"

definition tool_result_text :: pystr where
  "tool_result_text = [24037, 20855, 32467, 26524, 65306]"

definition none_text :: pystr where
  "none_text = [26080]"

definition query_failed_text :: pystr where
  "query_failed_text = [26597, 35810, 22833, 36133, 65306]"

definition weather_error_text :: pystr where
  "weather_error_text = [22825, 27668, 26597, 35810, 24322, 24120, 65306]"

definition today_text :: pystr where
  "today_text = [20170, 26085, 22825, 27668, 65306]"

definition temperature_text :: pystr where
  "temperature_text = [65292, 27668, 28201]"

definition wind_direction_text :: pystr where
  "wind_direction_text = [65292, 39118, 21521]"

definition wind_force_text :: pystr where
  "wind_force_text = [65292, 39118, 21147]"

definition calculated_text :: pystr where
  "calculated_text = [35745, 31639, 32467, 26524, 65306]"

definition calculation_failed_text :: pystr where
  "calculation_failed_text = [35745, 31639, 22833, 36133, 65306]"

definition exit_text :: pystr where
  "exit_text = [36864, 20986]"

definition think_system :: pystr where
  "think_system = [
      10, 20320, 26159, 20915, 31574, 21161, 25163, 65292, 20165, 21028, 26029, 26159, 21542, 35843,
      29992, 24037, 20855, 65292, 35268, 21017, 65306, 10, 49, 46, 32, 20165, 24403, 29992,
      25143, 36755, 20837, 26159, 12300, 26597, 22825, 27668, 12301, 65288, 21547, 22478, 24066, 21517,
      65289, 25110, 12300, 25968, 23398, 35745, 31639, 12301, 65288, 21547, 34920, 36798, 24335, 65289,
      26102, 65292, 36820, 22238, 23545, 24212, 24037, 20855, 20449, 24687, 65307, 10, 50, 46,
      32, 20854, 20182, 24773, 20917, 65288, 22914, 38382, 20505, 12289, 38386, 32842, 12289, 31354,
      36755, 20837, 65289, 65292, 36820, 22238, 123, 34, 116, 111, 111, 108, 95, 110,
      97, 109, 101, 34, 58, 34, 34, 44, 34, 116, 111, 111, 108, 95,
      105, 110, 112, 117, 116, 34, 58, 123, 125, 125, 65307, 10, 51, 46,
      32, 24517, 39035, 36820, 22238, 26631, 20934, 74, 83, 79, 78, 65292, 26080, 20219,
      20309, 22810, 20313, 25991, 23383, 12289, 27880, 37322, 12289, 25442, 34892, 12290, 10, 31034,
      20363, 49, 65288, 26597, 22825, 27668, 65289, 65306, 123, 34, 116, 111, 111, 108,
      95, 110, 97, 109, 101, 34, 58, 34, 119, 101, 97, 116, 104, 101,
      114, 95, 113, 117, 101, 114, 121, 34, 44, 34, 116, 111, 111, 108,
      95, 105, 110, 112, 117, 116, 34, 58, 123, 34, 99, 105, 116, 121,
      34, 58, 34, 21271, 20140, 34, 125, 125, 10, 31034, 20363, 50, 65288, 35745,
      31639, 65289, 65306, 123, 34, 116, 111, 111, 108, 95, 110, 97, 109, 101,
      34, 58, 34, 99, 97, 108, 99, 117, 108, 97, 116, 111, 114, 34,
      44, 34, 116, 111, 111, 108, 95, 105, 110, 112, 117, 116, 34, 58,
      123, 34, 101, 120, 112, 114, 101, 115, 115, 105, 111, 110, 34, 58,
      34, 49, 43, 49, 34, 125, 125, 10, 31034, 20363, 51, 65288, 38386, 32842,
      65289, 65306, 123, 34, 116, 111, 111, 108, 95, 110, 97, 109, 101, 34,
      58, 34, 34, 44, 34, 116, 111, 111, 108, 95, 105, 110, 112, 117,
      116, 34, 58, 123, 125, 125, 10]"

definition answer_system :: pystr where
  "answer_system = [
      10, 20320, 26159, 19968, 20010, 26377, 35760, 24518, 30340, 21161, 25163, 65292, 35201, 32771,
      34385, 23545, 35805, 21382, 21490, 65288, 99, 104, 97, 116, 95, 104, 105, 115,
      116, 111, 114, 121, 65289, 22238, 31572, 29992, 25143, 38382, 39064, 65292, 22238, 31572,
      35268, 21017, 65306, 10, 49, 46, 32, 31616, 27905, 21451, 22909, 65292, 19981, 37325,
      22797, 12289, 19981, 21872, 21990, 65307, 10, 50, 46, 32, 26377, 24037, 20855, 32467,
      26524, 21017, 22522, 20110, 24037, 20855, 32467, 26524, 22238, 31572, 65292, 26080, 21017, 30452,
      25509, 22238, 24212, 29992, 25143, 65288, 22914, 38382, 20505, 65289, 65307, 10, 51, 46,
      32, 20165, 22238, 22797, 29992, 25143, 24403, 21069, 38382, 39064, 65292, 19981, 20027, 21160,
      36861, 38382, 12289, 19981, 39069, 22806, 36755, 20986, 26080, 20851, 20869, 23481, 65307, 10,
      52, 46, 32, 22914, 26524, 26159, 24037, 20855, 35843, 29992, 22833, 36133, 65292, 35201,
      22238, 31572, 22833, 36133, 21407, 22240, 10, 53, 46, 22914, 26524, 29992, 25143, 38382,
      8220, 21069, 38754, 38382, 20102, 20160, 20040, 8221, 8220, 19978, 19968, 20010, 38382, 39064,
      26159, 20160, 20040, 8221, 65292, 24517, 39035, 20174, 99, 104, 97, 116, 95, 104,
      105, 115, 116, 111, 114, 121, 20013, 25552, 21462, 24182, 22238, 31572, 10]"

section \<open>The tools\<close>

subsection \<open>weather\_query\<close>

definition weather_url :: "pystr \<Rightarrow> pystr" where
  "weather_url city = lit ''http://wthrcdn.etouch.cn/weather_mini?city='' @ city"

text \<open>A value inside an f-string: a \<open>str\<close> is rendered as it is, any other by \<open>str()\<close>.\<close>

definition format_value :: "collaborators \<Rightarrow> json \<Rightarrow> pystr" where
  "format_value C v = (case v of JString t \<Rightarrow> t | _ \<Rightarrow> py_str C v)"

text \<open>The \<open>try\<close> block of \<open>weather_query\<close>, its subscripts in the order of evaluation.\<close>

definition weather_report :: "collaborators \<Rightarrow> pystr \<Rightarrow> exn + pystr" where
  "weather_report C city =
     and_then (http_get_json C (weather_url city)) (\<lambda>data.
     and_then (getitem_key data ''desc'') (\<lambda>desc.
       if desc \<noteq> JString (lit ''success'') then Inr (query_failed_text @ format_value C desc)
       else
         and_then (getitem_key data ''data'') (\<lambda>d.
         and_then (getitem_key d ''forecast'') (\<lambda>forecast.
         and_then (getitem_0 forecast) (\<lambda>weather_info.
         and_then (getitem_key weather_info ''type'') (\<lambda>type.
         and_then (getitem_key weather_info ''low'') (\<lambda>low.
         and_then (getitem_key weather_info ''high'') (\<lambda>high.
         and_then (getitem_key weather_info ''fengxiang'') (\<lambda>fengxiang.
         and_then (getitem_key weather_info ''fengli'') (\<lambda>fengli.
           Inr (city @ today_text @ format_value C type @
                temperature_text @ format_value C low @ lit ''~'' @ format_value C high @
                wind_direction_text @ format_value C fengxiang @
                wind_force_text @ format_value C fengli)))))))))))"

definition weather_query :: "collaborators \<Rightarrow> pystr \<Rightarrow> exn + pystr" where
  "weather_query C city =
     (case weather_report C city of
        Inr report \<Rightarrow> Inr report
      | Inl e \<Rightarrow> if is_Exception e then Inr (weather_error_text @ str_of_exn e) else Inl e)"

subsection \<open>calculator\<close>

text \<open>
  \<open>eval\<close> is called with the globals \<open>{"__builtins__": None}\<close> and the locals \<open>{}\<close>: it is
  handed no name. The \<open>except Exception\<close> clause turns an exception of that class into
  the failure text.
\<close>

definition calculator :: "collaborators \<Rightarrow> pystr \<Rightarrow> exn + pystr" where
  "calculator C expression =
     (case py_eval C expression [(lit ''__builtins__'', JNull)] [] of
        Inr result \<Rightarrow> Inr (calculated_text @ expression @ lit '' = '' @ result)
      | Inl e \<Rightarrow> if is_Exception e then Inr (calculation_failed_text @ str_of_exn e) else Inl e)"

subsection \<open>The registry\<close>

text \<open>\<open>weather_query.invoke(tool_input)\<close> and \<open>calculator.invoke(tool_input)\<close>.\<close>

definition weather_query_invoke :: "collaborators \<Rightarrow> json \<Rightarrow> exn + pystr" where
  "weather_query_invoke C inp = and_then (tool_argument C ''city'' inp) (weather_query C)"

definition calculator_invoke :: "collaborators \<Rightarrow> json \<Rightarrow> exn + pystr" where
  "calculator_invoke C inp = and_then (tool_argument C ''expression'' inp) (calculator C)"

text \<open>The registry \<open>tools\<close>: a dict with two keys.\<close>

definition tools :: "collaborators \<Rightarrow> pystr \<rightharpoonup> (json \<Rightarrow> exn + pystr)" where
  "tools C = [lit ''weather_query'' \<mapsto> weather_query_invoke C,
              lit ''calculator'' \<mapsto> calculator_invoke C]"

section \<open>The nodes\<close>

subsection \<open>think\_node\<close>

text \<open>The fallback of the \<open>except\<close> branch: \<open>{"tool_name": "", "tool_input": {}}\<close>.\<close>

definition default_decision :: json where
  "default_decision = JObject [(lit ''tool_name'', JString []), (lit ''tool_input'', JObject [])]"

text \<open>
  The decision prompt is the system text and the stripped input. It has no placeholder
  for the history: the \<open>chat_history\<close> handed to \<open>invoke\<close> does not reach the model.
\<close>

definition think_prompt :: "pystr \<Rightarrow> message list" where
  "think_prompt u = [SystemMessage think_system, HumanMessage u]"

text \<open>
  The \<open>try\<close> block holds the model call and \<open>json.loads(decision.content.strip())\<close>:
  an exception of class \<open>Exception\<close> from either gives the fallback.
\<close>

definition decide :: "collaborators \<Rightarrow> pystr \<Rightarrow> exn + json" where
  "decide C u =
     (case and_then (llm C (think_prompt u)) (\<lambda>content. json_loads C (strip content)) of
        Inr decision_dict \<Rightarrow> Inr decision_dict
      | Inl e \<Rightarrow> if is_Exception e then Inr default_decision else Inl e)"

text \<open>
  The two \<open>get\<close> calls and the \<open>strip\<close> of the tool name come after the \<open>try\<close> block:
  what they raise leaves the node.
\<close>

definition think_node :: "collaborators \<Rightarrow> AgentState \<Rightarrow> exn + AgentState" where
  "think_node C state =
     (let u = strip (user_input state) in
      if u = [] then Inr (state\<lparr>tool_name := [], tool_input := JObject []\<rparr>)
      else
        case decide C u of
          Inl e \<Rightarrow> Inl e
        | Inr decision_dict \<Rightarrow>
            (case dict_get decision_dict (lit ''tool_name'') (JString []) of
               Inl e \<Rightarrow> Inl e
             | Inr raw_name \<Rightarrow>
                 (case str_strip raw_name of
                    Inl e \<Rightarrow> Inl e
                  | Inr name \<Rightarrow>
                      (case dict_get decision_dict (lit ''tool_input'') (JObject []) of
                         Inl e \<Rightarrow> Inl e
                       | Inr inp \<Rightarrow> Inr (state\<lparr>tool_name := name, tool_input := inp\<rparr>)))))"

subsection \<open>tool\_node\<close>

text \<open>
  The registry is asked first; the tool's \<open>invoke\<close> is inside \<open>try\<close> with
  \<open>except Exception\<close>, so an exception outside that class leaves the node.
\<close>

definition tool_node :: "collaborators \<Rightarrow> AgentState \<Rightarrow> exn + AgentState" where
  "tool_node C state =
     (let name = tool_name state; inp = tool_input state in
      case (case tools C name of
              None \<Rightarrow> Inr (unknown_tool_text @ name)
            | Some capability \<Rightarrow>
                (case capability inp of
                   Inr r \<Rightarrow> Inr r
                 | Inl e \<Rightarrow> if is_Exception e then Inr (tool_error_text @ str_of_exn e) else Inl e)) of
        Inl e \<Rightarrow> Inl e
      | Inr res \<Rightarrow> Inr (state\<lparr>tool_result := res\<rparr>))"

subsection \<open>answer\_node\<close>

definition answer_prompt :: "AgentState \<Rightarrow> message list" where
  "answer_prompt state =
     SystemMessage answer_system # chat_history state @
     [HumanMessage (strip (user_input state)),
      SystemMessage (tool_result_text @
                     (if tool_result state \<noteq> [] then tool_result state else none_text))]"

text \<open>
  The model call is not inside a \<open>try\<close>. The new history is a copy of the old one,
  extended only after the call has returned.
\<close>

definition answer_node :: "collaborators \<Rightarrow> AgentState \<Rightarrow> exn + AgentState" where
  "answer_node C state =
     (let u = strip (user_input state) in
      case (if u = [] then Inr clarification else llm C (answer_prompt state)) of
        Inl e \<Rightarrow> Inl e
      | Inr answer \<Rightarrow>
          Inr (state\<lparr>final_answer := answer,
                     chat_history := (if u \<noteq> [] then chat_history state @ [HumanMessage u, AIMessage answer]
                                      else chat_history state)\<rparr>))"

section \<open>The graph\<close>

datatype node = THINK | TOOL | ANSWER | END

definition should_call_tool :: "AgentState \<Rightarrow> string" where
  "should_call_tool state = (if strip (tool_name state) \<noteq> [] then ''tool'' else ''answer'')"

definition path_map :: "string \<rightharpoonup> node" where
  "path_map = [''tool'' \<mapsto> TOOL, ''answer'' \<mapsto> ANSWER]"

text \<open>The edges: the conditional edge out of \<open>think\<close>, \<open>tool \<rightarrow> answer\<close>, \<open>answer \<rightarrow> END\<close>.\<close>

fun next_node :: "node \<Rightarrow> AgentState \<Rightarrow> node option" where
  "next_node THINK state = path_map (should_call_tool state)"
| "next_node TOOL state = Some ANSWER"
| "next_node ANSWER state = Some END"
| "next_node END state = None"

fun run_node :: "collaborators \<Rightarrow> node \<Rightarrow> AgentState \<Rightarrow> exn + AgentState" where
  "run_node C THINK state = think_node C state"
| "run_node C TOOL state = tool_node C state"
| "run_node C ANSWER state = answer_node C state"
| "run_node C END state = Inr state"

fun rank :: "node \<Rightarrow> nat" where
  "rank THINK = 3"
| "rank TOOL = 2"
| "rank ANSWER = 1"
| "rank END = 0"

text \<open>Running the graph from a node: run the node, follow its edge, stop at \<open>END\<close>.\<close>

function run_from :: "collaborators \<Rightarrow> node \<Rightarrow> AgentState \<Rightarrow> exn + AgentState" where
  "run_from C n state =
     (if n = END then Inr state
      else case run_node C n state of
             Inl e \<Rightarrow> Inl e
           | Inr state' \<Rightarrow>
               (case next_node n state' of
                  None \<Rightarrow> Inl (KeyError (lit ''branch''))
                | Some n' \<Rightarrow> run_from C n' state'))"
  by pat_completeness auto
termination
proof (relation "measure (\<lambda>(C, n, s). rank n)")
  fix C :: collaborators and n n' :: node and state state' :: AgentState
  assume "next_node n state' = Some n'"
  then have "rank n' < rank n"
    by (cases n) (auto simp: path_map_def should_call_tool_def split: if_splits)
  then show "((C, n', state'), (C, n, state)) \<in> measure (\<lambda>(C, n, s). rank n)"
    by simp
qed simp

declare run_from.simps [simp del]

text \<open>The entry point is \<open>think\<close>.\<close>

definition run_graph :: "collaborators \<Rightarrow> AgentState \<Rightarrow> exn + AgentState" where
  "run_graph C state = run_from C THINK state"

section \<open>The checkpoint store and the driver\<close>

type_synonym checkpoint_store = "pystr \<rightharpoonup> AgentState"

text \<open>
  Modelled from the spec: the run of the compiled graph under its checkpointer
  (\<open>graph.compile(checkpointer=MemorySaver())\<close> and \<open>agent_graph.invoke\<close>); the source
  only constructs the checkpointer, the library that writes to it is not part of the
  source. The spec (4.5): \<open>ANSWER\<close> runs the Answer Synthesis Stage, then transitions to
  \<open>DONE\<close>, at which point the resulting state is committed to the store under the session
  id; when a stage raises, the turn aborts and nothing is committed.
\<close>

definition invoke ::
  "collaborators \<Rightarrow> checkpoint_store \<Rightarrow> pystr \<Rightarrow> AgentState \<Rightarrow> (exn + AgentState) \<times> checkpoint_store" where
  "invoke C store session_id inp =
     (case run_graph C inp of
        Inl e \<Rightarrow> (Inl e, store)
      | Inr final \<Rightarrow> (Inr final, store(session_id \<mapsto> final)))"

text \<open>A \<open>MemorySaver()\<close> that has just been created holds no checkpoint.\<close>

definition MemorySaver :: checkpoint_store where
  "MemorySaver = Map.empty"

definition thread_id :: pystr where
  "thread_id = lit ''user_001''"

text \<open>
  One round of the main loop for a line that is not the exit phrase: set \<open>user_input\<close>,
  invoke the graph, copy the final \<open>chat_history\<close> back, reset the tool fields and
  \<open>final_answer\<close>. The loop has no \<open>try\<close>: an exception of \<open>invoke\<close> ends the program.
\<close>

definition main_turn ::
  "collaborators \<Rightarrow> checkpoint_store \<times> AgentState \<Rightarrow> pystr \<Rightarrow> exn + checkpoint_store \<times> AgentState" where
  "main_turn C st line =
     (let current_state = (snd st)\<lparr>user_input := line\<rparr> in
      case invoke C (fst st) thread_id current_state of
        (Inl e, store') \<Rightarrow> Inl e
      | (Inr final_state, store') \<Rightarrow>
          Inr (store', current_state\<lparr>chat_history := chat_history final_state, tool_name := [],
                                     tool_input := JObject [], tool_result := [], final_answer := []\<rparr>))"

text \<open>The loop over the lines read so far; the exit phrase ends it.\<close>

fun main_loop ::
  "collaborators \<Rightarrow> checkpoint_store \<times> AgentState \<Rightarrow> pystr list \<Rightarrow> exn + checkpoint_store \<times> AgentState" where
  "main_loop C st [] = Inr st"
| "main_loop C st (line # rest) =
     (if strip line = exit_text then Inr st
      else case main_turn C st line of
             Inl e \<Rightarrow> Inl e
           | Inr st' \<Rightarrow> main_loop C st' rest)"

text \<open>The lines that become turns: those before the first exit phrase.\<close>

definition turns :: "pystr list \<Rightarrow> pystr list" where
  "turns ls = takeWhile (\<lambda>l. strip l \<noteq> exit_text) ls"

section \<open>Sample collaborators\<close>

text \<open>
  Concrete collaborators on which the definitions can be run: replies a model could give
  at the decision stage, the values \<open>json.loads\<close> gives for them, results of \<open>eval\<close>,
  a reply of the weather service, and a model that gives one scripted result at the
  decision stage and another at the answer stage.
\<close>

definition reply_translator :: pystr where
  \<open>reply_translator = lit ''{"tool_name":"translator","tool_input":{}}''\<close>

definition reply_calculator :: pystr where
  \<open>reply_calculator = lit ''{"tool_name":"calculator","tool_input":{}}''\<close>

definition reply_name_only :: pystr where
  \<open>reply_name_only = lit ''{"tool_name":"calculator"}''\<close>

definition reply_number_name :: pystr where
  \<open>reply_number_name = lit ''{"tool_name":5,"tool_input":{}}''\<close>

definition reply_empty_object :: pystr where
  "reply_empty_object = lit ''{}''"

definition reply_prose :: pystr where
  "reply_prose = lit ''Sure, I can help with that.''"

definition sample_loads :: "pystr \<Rightarrow> exn + json" where
  "sample_loads t =
     (if t = reply_translator then
        Inr (JObject [(lit ''tool_name'', JString (lit ''translator'')), (lit ''tool_input'', JObject [])])
      else if t = reply_calculator then
        Inr (JObject [(lit ''tool_name'', JString (lit ''calculator'')), (lit ''tool_input'', JObject [])])
      else if t = reply_name_only then
        Inr (JObject [(lit ''tool_name'', JString (lit ''calculator''))])
      else if t = reply_number_name then
        Inr (JObject [(lit ''tool_name'', JInt 5), (lit ''tool_input'', JObject [])])
      else if t = reply_empty_object then Inr (JObject [])
      else Inl (Exception (lit ''Expecting value: line 1 column 1 (char 0)'')))"

text \<open>
  What \<open>eval\<close> gives with the builtins disabled: the value of \<open>1+2*3\<close>, a syntax error
  for an expression that is not one, and \<open>SystemExit\<close> for an expression that reaches the
  interpreter's \<open>Quitter\<close> class through the subclasses of \<open>object\<close> and calls it.
\<close>

definition exit_expression :: pystr where
  \<open>exit_expression =
     lit ''[c for c in ().__class__.__base__.__subclasses__() if c.__name__ == "Quitter"][0]("x", 0)()''\<close>

definition sample_eval :: "pystr \<Rightarrow> (pystr \<times> json) list \<Rightarrow> (pystr \<times> json) list \<Rightarrow> exn + pystr" where
  "sample_eval expression globals locals =
     (if expression = lit ''1+2*3'' then Inr (lit ''7'')
      else if expression = exit_expression then Inl (SystemExit (lit ''None''))
      else Inl (Exception (lit ''invalid syntax (<string>, line 1)'')))"

text \<open>The check of the tool's input: a dict with a string under the parameter's name.\<close>

definition sample_argument :: "string \<Rightarrow> json \<Rightarrow> exn + pystr" where
  "sample_argument k inp =
     (case inp of
        JObject kvs \<Rightarrow>
          (case map_of kvs (lit k) of
             Some (JString v) \<Rightarrow> Inr v
           | _ \<Rightarrow> Inl (Exception (lit k @ lit '': Field required'')))
      | _ \<Rightarrow> Inl (Exception (lit ''Input should be a valid dictionary'')))"

text \<open>A reply of the weather service.\<close>

definition sample_weather :: json where
  "sample_weather =
     JObject [(lit ''desc'', JString (lit ''success'')),
              (lit ''data'', JObject [(lit ''forecast'',
                 JArray [JObject [(lit ''type'', JString (lit ''sunny'')),
                                  (lit ''low'', JString (lit ''low 3'')),
                                  (lit ''high'', JString (lit ''high 9'')),
                                  (lit ''fengxiang'', JString (lit ''north'')),
                                  (lit ''fengli'', JString (lit ''2''))]])])]"

text \<open>
  The scripted model gives one result at the decision stage and another at the answer
  stage; the weather service answers for \<open>Paris\<close> only; \<open>str()\<close> is given for
  \<open>None\<close> and the booleans, the values the samples render.
\<close>

definition scripted :: "exn + pystr \<Rightarrow> exn + pystr \<Rightarrow> collaborators" where
  "scripted decision answer =
     \<lparr>llm = (\<lambda>ms. if take 1 ms = [SystemMessage think_system] then decision else answer),
      json_loads = sample_loads,
      py_eval = sample_eval,
      http_get_json = (\<lambda>url. if url = weather_url (lit ''Paris'') then Inr sample_weather
                               else Inl (Exception (lit ''404 Client Error''))),
      tool_argument = sample_argument,
      py_str = (\<lambda>v. case v of JBool b \<Rightarrow> (if b then lit ''True'' else lit ''False'')
                      | _ \<Rightarrow> lit ''None'')\<rparr>"

definition asking :: "pystr \<Rightarrow> AgentState" where
  "asking line = get_initial_state\<lparr>user_input := line\<rparr>"

text \<open>The non-blank stripped inputs of the turns, in order.\<close>

definition nonblank :: "pystr list \<Rightarrow> pystr list" where
  "nonblank ls = filter (\<lambda>u. u \<noteq> []) (map strip (turns ls))"

section \<open>Basic facts\<close>

lemma lit_eq_iff [simp]: "lit a = lit b \<longleftrightarrow> a = b"
  by (simp add: lit_def inj_map_eq_map [OF inj_of_char])

lemma lit_eq_Nil_iff [simp]: "lit a = [] \<longleftrightarrow> a = []"
  by (simp add: lit_def)

lemma Nil_eq_lit_iff [simp]: "[] = lit a \<longleftrightarrow> a = []"
  by (simp add: lit_def)

lemma lit_append [simp]:
  "lit a @ lit b = lit (a @ b)"
  "lit a @ lit b @ r = lit (a @ b) @ r"
  by (simp_all add: lit_def)

lemma strip_Nil [simp]: "strip [] = []"
  by (simp add: strip_def)

lemma all_dropWhile_iff: "(\<forall>x \<in> set (dropWhile P xs). P x) \<longleftrightarrow> (\<forall>x \<in> set xs. P x)"
  by (induction xs) auto

lemma strip_eq_Nil_iff: "strip s = [] \<longleftrightarrow> (\<forall>c \<in> set s. isspace c)"
  by (simp add: strip_def dropWhile_eq_Nil_conv all_dropWhile_iff)

lemma dropWhile_rev_dropWhile:
  "dropWhile P (rev (dropWhile P (rev (dropWhile P s)))) = rev (dropWhile P (rev (dropWhile P s)))"
proof -
  let ?d = "dropWhile P s"
  let ?t = "dropWhile P (rev ?d)"
  show ?thesis
  proof (cases "?t = []")
    case True
    show ?thesis by (simp only: True rev.simps(1) dropWhile.simps(1))
  next
    case False
    have "rev ?d = takeWhile P (rev ?d) @ ?t" by simp
    then have "last (rev ?d) = last ?t" using False by (metis last_appendR)
    moreover have "?d \<noteq> []" using False by (metis dropWhile.simps(1) rev.simps(1))
    ultimately have "last ?t = hd ?d" by (simp add: last_rev)
    moreover have "\<not> P (hd ?d)" using \<open>?d \<noteq> []\<close> by (rule hd_dropWhile)
    ultimately have "\<not> P (hd (rev ?t))" using False by (simp add: hd_rev)
    moreover have "rev ?t \<noteq> []" using False by simp
    ultimately show ?thesis by (cases "rev ?t") auto
  qed
qed

text \<open>Stripping twice is stripping once: a stripped tool name is blank only when empty.\<close>

lemma strip_strip: "strip (strip s) = strip s"
  by (simp add: strip_def dropWhile_rev_dropWhile)

lemma run_from_END: "run_from C END s = Inr s"
  by (simp add: run_from.simps)

lemma run_from_ANSWER: "run_from C ANSWER s = answer_node C s"
  by (simp add: run_from.simps [of C ANSWER] run_from_END split: sum.splits)

lemma run_from_TOOL:
  "run_from C TOOL s = (case tool_node C s of Inl e \<Rightarrow> Inl e | Inr s' \<Rightarrow> answer_node C s')"
  by (simp add: run_from.simps [of C TOOL] run_from_ANSWER split: sum.splits)

lemma next_node_THINK:
  "next_node THINK s = Some (if strip (tool_name s) \<noteq> [] then TOOL else ANSWER)"
  by (simp add: path_map_def should_call_tool_def)

text \<open>The run of the graph, with the edges followed.\<close>

lemma run_graph_eq:
  "run_graph C s =
     (case think_node C s of
        Inl e \<Rightarrow> Inl e
      | Inr s1 \<Rightarrow>
          if strip (tool_name s1) \<noteq> []
          then (case tool_node C s1 of Inl e \<Rightarrow> Inl e | Inr s2 \<Rightarrow> answer_node C s2)
          else answer_node C s1)"
  unfolding run_graph_def
  by (simp add: run_from.simps [of C THINK] path_map_def should_call_tool_def
        run_from_TOOL run_from_ANSWER split: sum.splits)

text \<open>What each node returns, field by field.\<close>

lemma think_node_blank:
  "strip (user_input s) = [] \<Longrightarrow> think_node C s = Inr (s\<lparr>tool_name := [], tool_input := JObject []\<rparr>)"
  by (simp add: think_node_def)

lemma think_node_Inr:
  assumes "think_node C s = Inr s'"
  shows "s' = s\<lparr>tool_name := tool_name s', tool_input := tool_input s'\<rparr>"
  using assms
  by (auto simp: think_node_def Let_def split: if_splits sum.splits)

lemma tool_node_Inr:
  assumes "tool_node C s = Inr s'"
  shows "s' = s\<lparr>tool_result := tool_result s'\<rparr>"
  using assms
  by (auto simp: tool_node_def Let_def split: sum.splits)

lemma tool_node_unknown:
  "tools C (tool_name s) = None \<Longrightarrow>
   tool_node C s = Inr (s\<lparr>tool_result := unknown_tool_text @ tool_name s\<rparr>)"
  by (simp add: tool_node_def)

lemma tool_node_returned:
  "tools C (tool_name s) = Some capability \<Longrightarrow> capability (tool_input s) = Inr r \<Longrightarrow>
   tool_node C s = Inr (s\<lparr>tool_result := r\<rparr>)"
  by (simp add: tool_node_def)

lemma tool_node_raised:
  "tools C (tool_name s) = Some capability \<Longrightarrow> capability (tool_input s) = Inl e \<Longrightarrow>
   tool_node C s =
     (if is_Exception e then Inr (s\<lparr>tool_result := tool_error_text @ str_of_exn e\<rparr>) else Inl e)"
  by (simp add: tool_node_def)

lemma answer_node_blank:
  "strip (user_input s) = [] \<Longrightarrow>
   answer_node C s = Inr (s\<lparr>final_answer := clarification, chat_history := chat_history s\<rparr>)"
  by (simp add: answer_node_def)

lemma answer_node_nonblank:
  "strip (user_input s) \<noteq> [] \<Longrightarrow>
   answer_node C s =
     (case llm C (answer_prompt s) of
        Inl e \<Rightarrow> Inl e
      | Inr a \<Rightarrow> Inr (s\<lparr>final_answer := a,
                         chat_history := chat_history s @ [HumanMessage (strip (user_input s)), AIMessage a]\<rparr>))"
  by (simp add: answer_node_def Let_def split: sum.splits)

lemma think_system_neq_answer_system: "answer_system \<noteq> think_system"
  by (simp add: think_system_def answer_system_def)

text \<open>The decision inside and after the \<open>try\<close> block.\<close>

lemma decide_parsed:
  "llm C (think_prompt u) = Inr content \<Longrightarrow> json_loads C (strip content) = Inr d \<Longrightarrow>
   decide C u = Inr d"
  by (simp add: decide_def)

lemma decide_unparsed:
  "llm C (think_prompt u) = Inr content \<Longrightarrow> json_loads C (strip content) = Inl e \<Longrightarrow>
   decide C u = (if is_Exception e then Inr default_decision else Inl e)"
  by (simp add: decide_def)

lemma decide_model_raises:
  "llm C (think_prompt u) = Inl e \<Longrightarrow>
   decide C u = (if is_Exception e then Inr default_decision else Inl e)"
  by (simp add: decide_def)

lemma think_node_fallback:
  assumes "strip (user_input s) \<noteq> []"
    and "decide C (strip (user_input s)) = Inr default_decision"
  shows "think_node C s = Inr (s\<lparr>tool_name := [], tool_input := JObject []\<rparr>)"
  using assms by (simp add: think_node_def default_decision_def)

lemma think_node_object:
  assumes "strip (user_input s) \<noteq> []"
    and "decide C (strip (user_input s)) = Inr (JObject kvs)"
    and "(case map_of kvs (lit ''tool_name'') of None \<Rightarrow> JString [] | Some v \<Rightarrow> v) = JString v"
  shows "think_node C s =
           Inr (s\<lparr>tool_name := strip v,
                  tool_input := (case map_of kvs (lit ''tool_input'') of None \<Rightarrow> JObject [] | Some i \<Rightarrow> i)\<rparr>)"
  using assms by (simp add: think_node_def)

text \<open>
  A \<open>tool_name\<close> that is not a string, or a reply that is not an object, raises
  \<open>AttributeError\<close> out of the node: the calls that raise are after the \<open>try\<close> block.
\<close>

lemma think_node_not_string:
  assumes "strip (user_input s) \<noteq> []"
    and "decide C (strip (user_input s)) = Inr (JObject kvs)"
    and "map_of kvs (lit ''tool_name'') = Some v"
    and "\<forall>t. v \<noteq> JString t"
  shows "think_node C s = Inl (no_attribute v ''strip'')"
  using assms by (cases v) (simp_all add: think_node_def)

lemma think_node_not_object:
  assumes "strip (user_input s) \<noteq> []"
    and "decide C (strip (user_input s)) = Inr d"
    and "\<forall>kvs. d \<noteq> JObject kvs"
  shows "think_node C s = Inl (no_attribute d ''get'')"
  using assms by (cases d) (simp_all add: think_node_def)

text \<open>The two tools: what \<open>except Exception\<close> makes of the outcome of the \<open>try\<close> block.\<close>

lemma calculator_returned:
  "py_eval C expression [(lit ''__builtins__'', JNull)] [] = Inr r \<Longrightarrow>
   calculator C expression = Inr (calculated_text @ expression @ lit '' = '' @ r)"
  by (simp add: calculator_def)

lemma calculator_raised:
  "py_eval C expression [(lit ''__builtins__'', JNull)] [] = Inl e \<Longrightarrow>
   calculator C expression =
     (if is_Exception e then Inr (calculation_failed_text @ str_of_exn e) else Inl e)"
  by (simp add: calculator_def)

lemma weather_query_never_raises_Exception:
  "weather_query C city = Inl e \<Longrightarrow> \<not> is_Exception e"
  by (auto simp: weather_query_def split: sum.splits if_splits)

section \<open>Running the samples\<close>

lemma strip_samples:
  "strip (lit ''hi'') = lit ''hi''"
  "strip (lit ''1+'') = lit ''1+''"
  "strip (lit '' '') = []"
  "strip (lit ''ok'') = lit ''ok''"
  "strip (lit ''calculator'') = lit ''calculator''"
  "strip (lit ''translator'') = lit ''translator''"
  "strip reply_translator = reply_translator"
  "strip reply_calculator = reply_calculator"
  "strip reply_name_only = reply_name_only"
  "strip reply_number_name = reply_number_name"
  "strip reply_empty_object = reply_empty_object"
  "strip reply_prose = reply_prose"
  by (simp_all add: strip_def lit_def isspace_def reply_translator_def reply_calculator_def
        reply_name_only_def reply_number_name_def reply_empty_object_def reply_prose_def)

lemma asking_sel [simp]:
  "user_input (asking l) = l"
  "chat_history (asking l) = []"
  "tool_name (asking l) = []"
  "tool_input (asking l) = JObject []"
  "tool_result (asking l) = []"
  "final_answer (asking l) = []"
  by (simp_all add: asking_def get_initial_state_def)

lemma scripted_sel [simp]:
  "llm (scripted d a) (think_prompt u) = d"
  "llm (scripted d a) (answer_prompt s) = a"
  "json_loads (scripted d a) = sample_loads"
  "py_eval (scripted d a) = sample_eval"
  "tool_argument (scripted d a) = sample_argument"
  by (simp_all add: scripted_def think_prompt_def answer_prompt_def think_system_neq_answer_system)

lemma sample_loads_values:
  "sample_loads reply_translator =
     Inr (JObject [(lit ''tool_name'', JString (lit ''translator'')), (lit ''tool_input'', JObject [])])"
  "sample_loads reply_calculator =
     Inr (JObject [(lit ''tool_name'', JString (lit ''calculator'')), (lit ''tool_input'', JObject [])])"
  "sample_loads reply_name_only = Inr (JObject [(lit ''tool_name'', JString (lit ''calculator''))])"
  "sample_loads reply_number_name =
     Inr (JObject [(lit ''tool_name'', JInt 5), (lit ''tool_input'', JObject [])])"
  "sample_loads reply_empty_object = Inr (JObject [])"
  "sample_loads reply_prose = Inl (Exception (lit ''Expecting value: line 1 column 1 (char 0)''))"
  by (simp_all add: sample_loads_def reply_translator_def reply_calculator_def
        reply_name_only_def reply_number_name_def reply_empty_object_def reply_prose_def)

lemma sample_eval_values:
  "sample_eval (lit ''1+2*3'') g l = Inr (lit ''7'')"
  "sample_eval (lit ''1+'') g l = Inl (Exception (lit ''invalid syntax (<string>, line 1)''))"
  "sample_eval exit_expression g l = Inl (SystemExit (lit ''None''))"
  by (simp_all add: sample_eval_def exit_expression_def)

lemma sample_argument_values:
  "sample_argument k (JObject []) = Inl (Exception (lit k @ lit '': Field required''))"
  "sample_argument ''expression'' (JObject [(lit ''expression'', JString v)]) = Inr v"
  "sample_argument ''city'' (JObject [(lit ''city'', JString v)]) = Inr v"
  by (simp_all add: sample_argument_def)

lemma tools_lookup:
  "tools C (lit ''weather_query'') = Some (weather_query_invoke C)"
  "tools C (lit ''calculator'') = Some (calculator_invoke C)"
  "tools C (lit ''translator'') = None"
  "tools C [] = None"
  by (simp_all add: tools_def)

text \<open>The calculator tool on the sample expressions, and the weather tool on the sample reply.\<close>

lemma calculator_invoke_samples:
  "calculator_invoke (scripted d a) (JObject [(lit ''expression'', JString (lit ''1+2*3''))])
     = Inr (calculated_text @ lit ''1+2*3 = 7'')"
  "calculator_invoke (scripted d a) (JObject [(lit ''expression'', JString (lit ''1+''))])
     = Inr (calculation_failed_text @ lit ''invalid syntax (<string>, line 1)'')"
  "calculator_invoke (scripted d a) (JObject [(lit ''expression'', JString exit_expression)])
     = Inl (SystemExit (lit ''None''))"
  "calculator_invoke (scripted d a) (JObject []) = Inl (Exception (lit ''expression: Field required''))"
  by (simp_all add: calculator_invoke_def calculator_def sample_argument_values sample_eval_values)

lemma weather_query_samples:
  "weather_query (scripted d a) (lit ''Paris'')
     = Inr (lit ''Paris'' @ today_text @ lit ''sunny'' @ temperature_text @ lit ''low 3~high 9'' @
            wind_direction_text @ lit ''north'' @ wind_force_text @ lit ''2'')"
  "weather_query (scripted d a) (lit ''Atlantis'') = Inr (weather_error_text @ lit ''404 Client Error'')"
  by (simp_all add: weather_query_def weather_report_def scripted_def sample_weather_def
        weather_url_def format_value_def)

lemma think_node_samples:
  "think_node (scripted (Inr reply_translator) a) (asking (lit ''hi''))
     = Inr ((asking (lit ''hi''))\<lparr>tool_name := lit ''translator'', tool_input := JObject []\<rparr>)"
  "think_node (scripted (Inr reply_calculator) a) (asking (lit ''1+''))
     = Inr ((asking (lit ''1+''))\<lparr>tool_name := lit ''calculator'', tool_input := JObject []\<rparr>)"
  "think_node (scripted (Inr reply_name_only) a) (asking (lit ''1+''))
     = Inr ((asking (lit ''1+''))\<lparr>tool_name := lit ''calculator'', tool_input := JObject []\<rparr>)"
  "think_node (scripted (Inr reply_prose) a) (asking (lit ''hi''))
     = Inr ((asking (lit ''hi''))\<lparr>tool_name := [], tool_input := JObject []\<rparr>)"
  "think_node (scripted (Inl (Exception m)) a) (asking (lit ''hi''))
     = Inr ((asking (lit ''hi''))\<lparr>tool_name := [], tool_input := JObject []\<rparr>)"
  by (simp_all add: think_node_def decide_def strip_samples sample_loads_values default_decision_def)

lemma think_node_number_name:
  "think_node (scripted (Inr reply_number_name) a) (asking (lit ''1+''))
     = Inl (no_attribute (JInt 5) ''strip'')"
  by (simp add: think_node_def decide_def strip_samples sample_loads_values)

lemma not_exit_samples:
  "lit ''hi'' \<noteq> exit_text" "[] \<noteq> exit_text"
  by (simp_all add: exit_text_def lit_def)

lemma run_graph_samples:
  "user_input s = lit ''hi'' \<Longrightarrow>
   run_graph (scripted (Inr reply_prose) (Inr (lit ''ok''))) s
     = Inr (s\<lparr>tool_name := [], tool_input := JObject [], final_answer := lit ''ok'',
              chat_history := chat_history s @ [HumanMessage (lit ''hi''), AIMessage (lit ''ok'')]\<rparr>)"
  "user_input s = lit '' '' \<Longrightarrow>
   run_graph (scripted (Inr reply_prose) (Inr (lit ''ok''))) s
     = Inr (s\<lparr>tool_name := [], tool_input := JObject [], final_answer := clarification\<rparr>)"
  by (simp_all add: run_graph_eq think_node_def decide_def strip_samples sample_loads_values
        default_decision_def answer_node_def)

section \<open>Routing\<close>

text \<open>
  Claim C9. Routing after the Decision Stage is a function of \<open>tool_name\<close> alone: a
  tool name that is non-empty after stripping whitespace routes to the TOOL stage, any other
  routes directly to ANSWER; and the TOOL stage always proceeds to ANSWER.
\<close>

theorem route_by_tool_name:
  "should_call_tool s = (if strip (tool_name s) \<noteq> [] then ''tool'' else ''answer'') \<and>
   next_node THINK s = Some (if strip (tool_name s) \<noteq> [] then TOOL else ANSWER) \<and>
   (tool_name s = tool_name s' \<longrightarrow> next_node THINK s = next_node THINK s') \<and>
   next_node TOOL s = Some ANSWER"
  by (simp add: should_call_tool_def path_map_def)

theorem route_by_tool_name_witness:
  "tool_name (asking (lit ''hi'')) = tool_name (asking (lit ''1+'')) \<and>
   next_node THINK (asking (lit ''hi'')) = next_node THINK (asking (lit ''1+'')) \<and>
   next_node THINK (asking (lit ''hi'')) = Some ANSWER \<and>
   next_node THINK ((asking (lit ''1+''))\<lparr>tool_name := lit ''calculator''\<rparr>) = Some TOOL"
proof -
  let ?t = "(asking (lit ''1+''))\<lparr>tool_name := lit ''calculator''\<rparr>"
  have h: "tool_name (asking (lit ''hi'')) = tool_name (asking (lit ''1+''))"
    by simp
  have a: "strip (tool_name (asking (lit ''hi''))) = []"
    by simp
  have c: "strip (tool_name ?t) \<noteq> []"
    by (simp add: strip_samples)
  have 1: "next_node THINK (asking (lit ''hi'')) = next_node THINK (asking (lit ''1+''))"
    using route_by_tool_name [of "asking (lit ''hi'')" "asking (lit ''1+'')"] h by blast
  have 2: "next_node THINK (asking (lit ''hi'')) = Some ANSWER"
    using route_by_tool_name [of "asking (lit ''hi'')"] a by (simp del: next_node.simps)
  have 3: "next_node THINK ?t = Some TOOL"
    using route_by_tool_name [of ?t] c by (simp del: next_node.simps)
  from h 1 2 3 show ?thesis by blast
qed

section \<open>Frame of the stages\<close>

text \<open>
  Claim C10. Each stage writes only its own fields of the state: the Decision Stage
  changes only \<open>tool_name\<close> and \<open>tool_input\<close>, the Tool Execution Stage changes only
  \<open>tool_result\<close>, and Answer Synthesis changes only \<open>final_answer\<close> and \<open>chat_history\<close>;
  so \<open>user_input\<close> is never written, and \<open>chat_history\<close> and \<open>final_answer\<close> are written
  by Answer Synthesis only.
\<close>

theorem stages_write_own_fields:
  "(think_node C s = Inr s1 \<longrightarrow> s1 = s\<lparr>tool_name := tool_name s1, tool_input := tool_input s1\<rparr>) \<and>
   (tool_node C s = Inr s3 \<longrightarrow> s3 = s\<lparr>tool_result := tool_result s3\<rparr>) \<and>
   (answer_node C s = Inr s2 \<longrightarrow>
      s2 = s\<lparr>final_answer := final_answer s2, chat_history := chat_history s2\<rparr>)"
proof (intro conjI impI)
  assume "think_node C s = Inr s1"
  then show "s1 = s\<lparr>tool_name := tool_name s1, tool_input := tool_input s1\<rparr>"
    by (rule think_node_Inr)
next
  assume "tool_node C s = Inr s3"
  then show "s3 = s\<lparr>tool_result := tool_result s3\<rparr>"
    by (rule tool_node_Inr)
next
  assume "answer_node C s = Inr s2"
  then show "s2 = s\<lparr>final_answer := final_answer s2, chat_history := chat_history s2\<rparr>"
    by (auto simp: answer_node_def Let_def split: if_splits sum.splits)
qed

theorem stages_write_own_fields_witness:
  "think_node (scripted (Inr reply_calculator) (Inr (lit ''ok''))) (asking (lit ''1+''))
     = Inr ((asking (lit ''1+''))\<lparr>tool_name := lit ''calculator'', tool_input := JObject []\<rparr>) \<and>
   answer_node (scripted (Inr reply_calculator) (Inr (lit ''ok''))) (asking (lit ''1+''))
     = Inr ((asking (lit ''1+''))\<lparr>final_answer := lit ''ok'',
              chat_history := [HumanMessage (lit ''1+''), AIMessage (lit ''ok'')]\<rparr>) \<and>
   tool_node (scripted (Inr reply_calculator) (Inr (lit ''ok'')))
       ((asking (lit ''1+''))\<lparr>tool_name := lit ''calculator'', tool_input := JObject []\<rparr>)
     = Inr ((asking (lit ''1+''))\<lparr>tool_name := lit ''calculator'', tool_input := JObject [],
              tool_result := tool_error_text @ lit ''expression: Field required''\<rparr>)"
proof -
  let ?C = "scripted (Inr reply_calculator) (Inr (lit ''ok''))"
  let ?s = "asking (lit ''1+'')"
  let ?s1 = "?s\<lparr>tool_name := lit ''calculator'', tool_input := JObject []\<rparr>"
  let ?s2 = "?s\<lparr>final_answer := lit ''ok'',
                  chat_history := [HumanMessage (lit ''1+''), AIMessage (lit ''ok'')]\<rparr>"
  have t: "think_node ?C ?s = Inr ?s1"
    by (rule think_node_samples)
  have a: "answer_node ?C ?s = Inr ?s2"
    by (simp add: answer_node_nonblank strip_samples)
  let ?s3 = "?s1\<lparr>tool_result := tool_error_text @ lit ''expression: Field required''\<rparr>"
  have r: "tool_node ?C ?s1 = Inr ?s3"
    by (simp add: tool_node_def tools_lookup calculator_invoke_samples)
  from stages_write_own_fields [of ?C ?s ?s1 _ ?s2] stages_write_own_fields [of ?C ?s1 _ ?s3] t a r
  show ?thesis
    by simp
qed

section \<open>The Tool Execution Stage\<close>




section \<open>Blank input\<close>

text \<open>
  Claim C7. When \<open>user_input\<close> is empty or whitespace only, the Decision Stage returns the
  empty decision, the turn routes to Answer Synthesis, which returns the fixed
  clarification text, and \<open>chat_history\<close> is left as it was. The language model is not
  called in either stage: the result is the same whatever the model would do.
\<close>

theorem blank_input_turn:
  assumes "strip (user_input s) = []"
  shows "think_node C s = Inr (s\<lparr>tool_name := [], tool_input := JObject []\<rparr>) \<and>
         answer_node C s = Inr (s\<lparr>final_answer := clarification\<rparr>) \<and>
         run_graph C s = Inr (s\<lparr>tool_name := [], tool_input := JObject [], final_answer := clarification\<rparr>) \<and>
         think_node (C\<lparr>llm := f\<rparr>) s = think_node C s \<and>
         answer_node (C\<lparr>llm := f\<rparr>) s = answer_node C s \<and>
         run_graph (C\<lparr>llm := f\<rparr>) s = run_graph C s"
proof -
  have t: "\<And>D. think_node D s = Inr (s\<lparr>tool_name := [], tool_input := JObject []\<rparr>)"
    using assms by (simp add: think_node_blank)
  have a: "\<And>D s'. user_input s' = user_input s \<Longrightarrow> answer_node D s' = Inr (s'\<lparr>final_answer := clarification\<rparr>)"
    using assms by (simp add: answer_node_blank)
  have g: "\<And>D. run_graph D s =
             Inr (s\<lparr>tool_name := [], tool_input := JObject [], final_answer := clarification\<rparr>)"
    by (simp add: run_graph_eq t a)
  show ?thesis
    by (simp add: t a g)
qed

theorem blank_input_turn_witness:
  "strip (user_input (asking (lit '' ''))) = [] \<and>
   run_graph (scripted (Inl (Exception (lit ''timeout''))) (Inl (Exception (lit ''timeout'')))) (asking (lit '' ''))
     = Inr ((asking (lit '' ''))\<lparr>tool_name := [], tool_input := JObject [], final_answer := clarification\<rparr>) \<and>
   chat_history ((asking (lit '' ''))\<lparr>tool_name := [], tool_input := JObject [], final_answer := clarification\<rparr>) = []"
proof -
  have h: "strip (user_input (asking (lit '' ''))) = []"
    by (simp add: strip_samples)
  from blank_input_turn [OF h, of "scripted (Inl (Exception (lit ''timeout''))) (Inl (Exception (lit ''timeout'')))"] h
  show ?thesis by simp
qed

section \<open>The Decision Stage\<close>

text \<open>
  Claim C1, as the code has it. When the Decision Stage returns, its \<open>tool_name\<close> is empty
  or is the stripped string that the model's parsed reply holds under \<open>tool_name\<close>; the name
  is not compared with the Tool Registry there. A name outside the registry is passed on,
  routed to the TOOL stage when it is not empty, and rendered there as the "unknown tool"
  text.
\<close>

theorem decision_tool_name:
  assumes "think_node C s = Inr s1"
  shows "(tool_name s1 = [] \<or>
          (\<exists>d v. decide C (strip (user_input s)) = Inr d \<and>
                 dict_get d (lit ''tool_name'') (JString []) = Inr (JString v) \<and>
                 tool_name s1 = strip v)) \<and>
         (tool_name s1 \<noteq> [] \<longrightarrow> next_node THINK s1 = Some TOOL) \<and>
         (tools C (tool_name s1) = None \<longrightarrow>
            tool_node C s1 = Inr (s1\<lparr>tool_result := unknown_tool_text @ tool_name s1\<rparr>))"
proof (intro conjI impI)
  show "tool_name s1 = [] \<or>
        (\<exists>d v. decide C (strip (user_input s)) = Inr d \<and>
               dict_get d (lit ''tool_name'') (JString []) = Inr (JString v) \<and>
               tool_name s1 = strip v)"
  proof (cases "strip (user_input s) = []")
    case True
    with assms show ?thesis by (auto simp: think_node_def)
  next
    case False
    with assms obtain d raw name inp where
      d: "decide C (strip (user_input s)) = Inr d" and
      g: "dict_get d (lit ''tool_name'') (JString []) = Inr raw" and
      n: "str_strip raw = Inr name" and
      s1: "s1 = s\<lparr>tool_name := name, tool_input := inp\<rparr>"
      by (auto simp: think_node_def Let_def split: sum.splits)
    from n obtain v where "raw = JString v" "name = strip v"
      by (cases raw) auto
    with d g s1 show ?thesis by simp
  qed
next
  have stripped: "strip (tool_name s1) = tool_name s1"
    using assms
    by (auto simp: think_node_def Let_def strip_strip split: if_splits sum.splits elim!: str_strip.elims)
  assume "tool_name s1 \<noteq> []"
  with stripped show "next_node THINK s1 = Some TOOL"
    by (simp add: next_node_THINK del: next_node.simps)
next
  assume "tools C (tool_name s1) = None"
  then show "tool_node C s1 = Inr (s1\<lparr>tool_result := unknown_tool_text @ tool_name s1\<rparr>)"
    by (rule tool_node_unknown)
qed

theorem decision_tool_name_witness:
  "think_node (scripted (Inr reply_translator) (Inr (lit ''ok''))) (asking (lit ''hi''))
     = Inr ((asking (lit ''hi''))\<lparr>tool_name := lit ''translator'', tool_input := JObject []\<rparr>) \<and>
   next_node THINK ((asking (lit ''hi''))\<lparr>tool_name := lit ''translator'', tool_input := JObject []\<rparr>) = Some TOOL \<and>
   tool_node (scripted (Inr reply_translator) (Inr (lit ''ok'')))
       ((asking (lit ''hi''))\<lparr>tool_name := lit ''translator'', tool_input := JObject []\<rparr>)
     = Inr ((asking (lit ''hi''))\<lparr>tool_name := lit ''translator'', tool_input := JObject [],
              tool_result := unknown_tool_text @ lit ''translator''\<rparr>)"
proof -
  let ?C = "scripted (Inr reply_translator) (Inr (lit ''ok''))"
  let ?s1 = "(asking (lit ''hi''))\<lparr>tool_name := lit ''translator'', tool_input := JObject []\<rparr>"
  have h: "think_node ?C (asking (lit ''hi'')) = Inr ?s1"
    by (rule think_node_samples)
  have n: "tool_name ?s1 \<noteq> []" "tools ?C (tool_name ?s1) = None"
    by (simp_all add: tools_lookup)
  from decision_tool_name [OF h] n h show ?thesis
    by (simp del: next_node.simps)
qed

text \<open>
  Claim C1 as stated fails: the model names a tool \<open>translator\<close>, which the registry does
  not have, and the Decision Stage returns that name.
\<close>

theorem decision_unregistered_counterexample:
  "think_node (scripted (Inr reply_translator) (Inr (lit ''ok''))) (asking (lit ''hi''))
     = Inr ((asking (lit ''hi''))\<lparr>tool_name := lit ''translator'', tool_input := JObject []\<rparr>) \<and>
   lit ''translator'' \<noteq> [] \<and>
   lit ''translator'' \<notin> dom (tools (scripted (Inr reply_translator) (Inr (lit ''ok''))))"
  by (simp add: think_node_samples tools_lookup domIff)

text \<open>
  Claim C4, as the code has it. On a non-blank input: when the model call raises an
  exception of class \<open>Exception\<close>, or the stripped reply does not parse as JSON (the parser
  raises one), the Decision Stage returns the empty decision.
  When the reply parses to an object, each of the two keys is defaulted on its own: a
  missing \<open>tool_name\<close> is the empty name, a missing \<open>tool_input\<close> is the empty mapping, a
  string \<open>tool_name\<close> is stripped, and \<open>tool_input\<close> is taken as it is.
\<close>

theorem decision_fallback:
  assumes "strip (user_input s) \<noteq> []"
  shows "(llm C (think_prompt (strip (user_input s))) = Inl e \<and> is_Exception e \<longrightarrow>
            think_node C s = Inr (s\<lparr>tool_name := [], tool_input := JObject []\<rparr>)) \<and>
         (llm C (think_prompt (strip (user_input s))) = Inr content \<and>
          json_loads C (strip content) = Inl e \<and> is_Exception e \<longrightarrow>
            think_node C s = Inr (s\<lparr>tool_name := [], tool_input := JObject []\<rparr>)) \<and>
         (llm C (think_prompt (strip (user_input s))) = Inr content \<and>
          json_loads C (strip content) = Inr (JObject kvs) \<and>
          map_of kvs (lit ''tool_name'') = None \<longrightarrow>
            think_node C s =
              Inr (s\<lparr>tool_name := [],
                     tool_input := (case map_of kvs (lit ''tool_input'') of
                                      None \<Rightarrow> JObject [] | Some i \<Rightarrow> i)\<rparr>)) \<and>
         (llm C (think_prompt (strip (user_input s))) = Inr content \<and>
          json_loads C (strip content) = Inr (JObject kvs) \<and>
          map_of kvs (lit ''tool_name'') = Some (JString v) \<longrightarrow>
            think_node C s =
              Inr (s\<lparr>tool_name := strip v,
                     tool_input := (case map_of kvs (lit ''tool_input'') of
                                      None \<Rightarrow> JObject [] | Some i \<Rightarrow> i)\<rparr>))"
proof (intro conjI impI)
  assume "llm C (think_prompt (strip (user_input s))) = Inl e \<and> is_Exception e"
  then have "decide C (strip (user_input s)) = Inr default_decision"
    by (simp add: decide_model_raises)
  with assms show "think_node C s = Inr (s\<lparr>tool_name := [], tool_input := JObject []\<rparr>)"
    by (rule think_node_fallback)
next
  assume "llm C (think_prompt (strip (user_input s))) = Inr content \<and>
          json_loads C (strip content) = Inl e \<and> is_Exception e"
  then have "decide C (strip (user_input s)) = Inr default_decision"
    by (simp add: decide_unparsed)
  with assms show "think_node C s = Inr (s\<lparr>tool_name := [], tool_input := JObject []\<rparr>)"
    by (rule think_node_fallback)
next
  assume a: "llm C (think_prompt (strip (user_input s))) = Inr content \<and>
          json_loads C (strip content) = Inr (JObject kvs) \<and>
          map_of kvs (lit ''tool_name'') = None"
  then have d: "decide C (strip (user_input s)) = Inr (JObject kvs)"
    by (simp add: decide_parsed)
  from a have "(case map_of kvs (lit ''tool_name'') of None \<Rightarrow> JString [] | Some v \<Rightarrow> v) = JString []"
    by simp
  from think_node_object [OF assms d this]
  show "think_node C s =
          Inr (s\<lparr>tool_name := [],
                 tool_input := (case map_of kvs (lit ''tool_input'') of None \<Rightarrow> JObject [] | Some i \<Rightarrow> i)\<rparr>)"
    by simp
next
  assume a: "llm C (think_prompt (strip (user_input s))) = Inr content \<and>
          json_loads C (strip content) = Inr (JObject kvs) \<and>
          map_of kvs (lit ''tool_name'') = Some (JString v)"
  then have d: "decide C (strip (user_input s)) = Inr (JObject kvs)"
    by (simp add: decide_parsed)
  from a have "(case map_of kvs (lit ''tool_name'') of None \<Rightarrow> JString [] | Some v \<Rightarrow> v) = JString v"
    by simp
  from think_node_object [OF assms d this]
  show "think_node C s =
          Inr (s\<lparr>tool_name := strip v,
                 tool_input := (case map_of kvs (lit ''tool_input'') of None \<Rightarrow> JObject [] | Some i \<Rightarrow> i)\<rparr>)" .
qed

theorem decision_fallback_witness:
  "think_node (scripted (Inl (Exception (lit ''timeout''))) (Inr (lit ''ok''))) (asking (lit ''hi''))
     = Inr ((asking (lit ''hi''))\<lparr>tool_name := [], tool_input := JObject []\<rparr>) \<and>
   think_node (scripted (Inr reply_prose) (Inr (lit ''ok''))) (asking (lit ''hi''))
     = Inr ((asking (lit ''hi''))\<lparr>tool_name := [], tool_input := JObject []\<rparr>) \<and>
   think_node (scripted (Inr reply_empty_object) (Inr (lit ''ok''))) (asking (lit ''hi''))
     = Inr ((asking (lit ''hi''))\<lparr>tool_name := [], tool_input := JObject []\<rparr>) \<and>
   think_node (scripted (Inr reply_name_only) (Inr (lit ''ok''))) (asking (lit ''1+''))
     = Inr ((asking (lit ''1+''))\<lparr>tool_name := lit ''calculator'', tool_input := JObject []\<rparr>)"
proof -
  let ?a = "Inr (lit ''ok'') :: exn + pystr"
  have hi: "strip (user_input (asking (lit ''hi''))) \<noteq> []"
    and calc: "strip (user_input (asking (lit ''1+''))) \<noteq> []"
    by (simp_all add: strip_samples)
  have 1: "think_node (scripted (Inl (Exception (lit ''timeout''))) ?a) (asking (lit ''hi''))
             = Inr ((asking (lit ''hi''))\<lparr>tool_name := [], tool_input := JObject []\<rparr>)"
    using decision_fallback [OF hi, of "scripted (Inl (Exception (lit ''timeout''))) ?a"
        "Exception (lit ''timeout'')"]
    by simp
  have 2: "think_node (scripted (Inr reply_prose) ?a) (asking (lit ''hi''))
             = Inr ((asking (lit ''hi''))\<lparr>tool_name := [], tool_input := JObject []\<rparr>)"
    using decision_fallback [OF hi, of "scripted (Inr reply_prose) ?a"
        "Exception (lit ''Expecting value: line 1 column 1 (char 0)'')" reply_prose]
    by (simp add: strip_samples sample_loads_values)
  have 3: "think_node (scripted (Inr reply_empty_object) ?a) (asking (lit ''hi''))
             = Inr ((asking (lit ''hi''))\<lparr>tool_name := [], tool_input := JObject []\<rparr>)"
    using decision_fallback [OF hi, of "scripted (Inr reply_empty_object) ?a" _ reply_empty_object "[]"]
    by (simp add: strip_samples sample_loads_values)
  have 4: "think_node (scripted (Inr reply_name_only) ?a) (asking (lit ''1+''))
             = Inr ((asking (lit ''1+''))\<lparr>tool_name := lit ''calculator'', tool_input := JObject []\<rparr>)"
    using decision_fallback [OF calc, of "scripted (Inr reply_name_only) ?a" _ reply_name_only
        "[(lit ''tool_name'', JString (lit ''calculator''))]" "lit ''calculator''"]
    by (simp add: strip_samples sample_loads_values)
  from 1 2 3 4 show ?thesis by blast
qed

text \<open>
  Claim C4 as stated fails: a reply that parses but has no \<open>tool_input\<close> key does not
  give the empty decision, it gives the named tool with an empty input.
\<close>

theorem decision_missing_key_counterexample:
  "json_loads (scripted (Inr reply_name_only) (Inr (lit ''ok''))) (strip reply_name_only)
     = Inr (JObject [(lit ''tool_name'', JString (lit ''calculator''))]) \<and>
   think_node (scripted (Inr reply_name_only) (Inr (lit ''ok''))) (asking (lit ''1+''))
     = Inr ((asking (lit ''1+''))\<lparr>tool_name := lit ''calculator'', tool_input := JObject []\<rparr>) \<and>
   think_node (scripted (Inr reply_name_only) (Inr (lit ''ok''))) (asking (lit ''1+''))
     \<noteq> Inr ((asking (lit ''1+''))\<lparr>tool_name := [], tool_input := JObject []\<rparr>)"
proof -
  have "tool_name ((asking (lit ''1+''))\<lparr>tool_name := lit ''calculator'', tool_input := JObject []\<rparr>)
        \<noteq> tool_name ((asking (lit ''1+''))\<lparr>tool_name := [], tool_input := JObject []\<rparr>)"
    by simp
  then have "(asking (lit ''1+''))\<lparr>tool_name := lit ''calculator'', tool_input := JObject []\<rparr>
        \<noteq> (asking (lit ''1+''))\<lparr>tool_name := [], tool_input := JObject []\<rparr>"
    by metis
  then show ?thesis
    by (simp add: think_node_samples strip_samples sample_loads_values)
qed

section \<open>Answer Synthesis\<close>

text \<open>
  Claim C3, as the code has it. When Answer Synthesis succeeds on an input that is not
  blank, the new \<open>chat_history\<close> is the old one followed by exactly one user entry with the
  stripped input and one assistant entry with the model's answer, which is \<open>final_answer\<close>.
  The two entries are appended whether or not an equal assistant entry is already there:
  the stage applied to its own result appends a second pair.
\<close>

theorem answer_appends_turn:
  assumes "strip (user_input s) \<noteq> []"
    and "answer_node C s = Inr s1"
  shows "llm C (answer_prompt s) = Inr (final_answer s1) \<and>
         chat_history s1 =
           chat_history s @ [HumanMessage (strip (user_input s)), AIMessage (final_answer s1)] \<and>
         (answer_node C s1 = Inr s2 \<longrightarrow>
            chat_history s2 =
              chat_history s @ [HumanMessage (strip (user_input s)), AIMessage (final_answer s1),
                                HumanMessage (strip (user_input s)), AIMessage (final_answer s2)])"
proof -
  from assms have 1: "llm C (answer_prompt s) = Inr (final_answer s1)"
    and 2: "chat_history s1 =
              chat_history s @ [HumanMessage (strip (user_input s)), AIMessage (final_answer s1)]"
    and u: "user_input s1 = user_input s"
    by (auto simp: answer_node_nonblank split: sum.splits)
  have 3: "chat_history s2 = chat_history s1 @ [HumanMessage (strip (user_input s)), AIMessage (final_answer s2)]"
    if "answer_node C s1 = Inr s2"
    using that assms(1) u by (auto simp: answer_node_nonblank split: sum.splits)
  from 1 2 3 show ?thesis by simp
qed

theorem answer_appends_turn_witness:
  "strip (user_input (asking (lit ''hi''))) \<noteq> [] \<and>
   answer_node (scripted (Inr reply_prose) (Inr (lit ''ok''))) (asking (lit ''hi''))
     = Inr ((asking (lit ''hi''))\<lparr>final_answer := lit ''ok'',
              chat_history := [HumanMessage (lit ''hi''), AIMessage (lit ''ok'')]\<rparr>) \<and>
   answer_node (scripted (Inr reply_prose) (Inr (lit ''ok'')))
       ((asking (lit ''hi''))\<lparr>final_answer := lit ''ok'',
              chat_history := [HumanMessage (lit ''hi''), AIMessage (lit ''ok'')]\<rparr>)
     = Inr ((asking (lit ''hi''))\<lparr>final_answer := lit ''ok'',
              chat_history := [HumanMessage (lit ''hi''), AIMessage (lit ''ok''),
                               HumanMessage (lit ''hi''), AIMessage (lit ''ok'')]\<rparr>) \<and>
   llm (scripted (Inr reply_prose) (Inr (lit ''ok''))) (answer_prompt (asking (lit ''hi'')))
     = Inr (lit ''ok'')"
proof -
  let ?C = "scripted (Inr reply_prose) (Inr (lit ''ok''))"
  let ?s1 = "(asking (lit ''hi''))\<lparr>final_answer := lit ''ok'',
              chat_history := [HumanMessage (lit ''hi''), AIMessage (lit ''ok'')]\<rparr>"
  let ?s2 = "(asking (lit ''hi''))\<lparr>final_answer := lit ''ok'',
              chat_history := [HumanMessage (lit ''hi''), AIMessage (lit ''ok''),
                               HumanMessage (lit ''hi''), AIMessage (lit ''ok'')]\<rparr>"
  have h: "strip (user_input (asking (lit ''hi''))) \<noteq> []"
    by (simp add: strip_samples)
  have a: "answer_node ?C (asking (lit ''hi'')) = Inr ?s1"
    by (simp add: answer_node_nonblank strip_samples)
  have b: "answer_node ?C ?s1 = Inr ?s2"
    by (simp add: answer_node_nonblank strip_samples)
  from answer_appends_turn [OF h a, of ?s2] b have
    "llm ?C (answer_prompt (asking (lit ''hi''))) = Inr (final_answer ?s1)"
    "chat_history ?s2 =
       chat_history (asking (lit ''hi'')) @
       [HumanMessage (strip (user_input (asking (lit ''hi'')))), AIMessage (final_answer ?s1),
        HumanMessage (strip (user_input (asking (lit ''hi'')))), AIMessage (final_answer ?s2)]"
    by blast+
  with h a b show ?thesis by simp
qed

text \<open>
  Claim C3 as stated fails: the history already holds the assistant entry \<open>ok\<close>, the stage
  runs again with the same answer, and the entry is appended again.
\<close>

theorem answer_reappends_counterexample:
  "AIMessage (lit ''ok'') \<in> set (chat_history ((asking (lit ''hi''))\<lparr>final_answer := lit ''ok'',
        chat_history := [HumanMessage (lit ''hi''), AIMessage (lit ''ok'')]\<rparr>)) \<and>
   answer_node (scripted (Inr reply_prose) (Inr (lit ''ok'')))
     ((asking (lit ''hi''))\<lparr>final_answer := lit ''ok'',
        chat_history := [HumanMessage (lit ''hi''), AIMessage (lit ''ok'')]\<rparr>)
     = Inr ((asking (lit ''hi''))\<lparr>final_answer := lit ''ok'',
        chat_history := [HumanMessage (lit ''hi''), AIMessage (lit ''ok''),
                         HumanMessage (lit ''hi''), AIMessage (lit ''ok'')]\<rparr>)"
  by (simp add: answer_node_nonblank strip_samples)

section \<open>History over the turns of a session\<close>

lemma run_graph_history:
  assumes "run_graph C s = Inr f"
  shows "user_input f = user_input s \<and>
         chat_history f =
           chat_history s @ (if strip (user_input s) \<noteq> []
                             then [HumanMessage (strip (user_input s)), AIMessage (final_answer f)]
                             else [])"
proof -
  from assms obtain s1 s2 where t: "think_node C s = Inr s1"
    and r: "(if strip (tool_name s1) \<noteq> [] then tool_node C s1 else Inr s1) = Inr s2"
    and a: "answer_node C s2 = Inr f"
    by (auto simp: run_graph_eq split: sum.splits if_splits)
  from think_node_Inr [OF t] have "user_input s1 = user_input s" "chat_history s1 = chat_history s"
    by (metis AgentState.select_convs(1) AgentState.surjective AgentState.update_convs(3,4),
        metis AgentState.select_convs(2) AgentState.surjective AgentState.update_convs(3,4))
  moreover have "user_input s2 = user_input s1" "chat_history s2 = chat_history s1"
    using r by (auto simp: tool_node_def Let_def split: if_splits sum.splits)
  ultimately have s2: "user_input s2 = user_input s" "chat_history s2 = chat_history s"
    by simp_all
  show ?thesis
  proof (cases "strip (user_input s) = []")
    case True
    with a s2 show ?thesis
      by (auto simp: answer_node_blank)
  next
    case False
    with a s2 show ?thesis
      by (auto simp: answer_node_nonblank split: sum.splits)
  qed
qed

lemma main_turn_history:
  assumes "main_turn C st line = Inr st'"
  shows "\<exists>a. chat_history (snd st') =
           chat_history (snd st) @ (if strip line \<noteq> [] then [HumanMessage (strip line), AIMessage a] else [])"
proof -
  from assms obtain f where g: "run_graph C ((snd st)\<lparr>user_input := line\<rparr>) = Inr f"
    and c: "chat_history (snd st') = chat_history f"
    by (auto simp: main_turn_def invoke_def Let_def split: sum.splits prod.splits)
  from run_graph_history [OF g] c show ?thesis
    by auto
qed

lemma nonblank_Nil [simp]: "nonblank [] = []"
  by (simp add: nonblank_def turns_def)

lemma nonblank_Cons:
  "nonblank (l # ls) =
     (if strip l = exit_text then []
      else (if strip l \<noteq> [] then [strip l] else []) @ nonblank ls)"
  by (simp add: nonblank_def turns_def)

lemma main_loop_history:
  "main_loop C st ls = Inr st' \<Longrightarrow>
   \<exists>answers. length answers = length (nonblank ls) \<and>
     chat_history (snd st') =
       chat_history (snd st) @ concat (map2 (\<lambda>u a. [HumanMessage u, AIMessage a]) (nonblank ls) answers)"
proof (induction ls arbitrary: st)
  case Nil
  then show ?case by simp
next
  case (Cons l ls)
  show ?case
  proof (cases "strip l = exit_text")
    case True
    with Cons.prems show ?thesis by (simp add: nonblank_Cons)
  next
    case False
    with Cons.prems obtain st1 where t: "main_turn C st l = Inr st1"
      and r: "main_loop C st1 ls = Inr st'"
      by (auto split: sum.splits)
    from Cons.IH [OF r] obtain as where
      l: "length as = length (nonblank ls)" and
      h: "chat_history (snd st') =
            chat_history (snd st1) @ concat (map2 (\<lambda>u a. [HumanMessage u, AIMessage a]) (nonblank ls) as)"
      by blast
    from main_turn_history [OF t] obtain a where
      h1: "chat_history (snd st1) =
             chat_history (snd st) @ (if strip l \<noteq> [] then [HumanMessage (strip l), AIMessage a] else [])"
      by blast
    show ?thesis
    proof (cases "strip l = []")
      case True
      with False l h h1 show ?thesis
        by (auto simp: nonblank_Cons)
    next
      case nb: False
      with False l h h1 have
        "length (a # as) = length (nonblank (l # ls)) \<and>
         chat_history (snd st') =
           chat_history (snd st) @
           concat (map2 (\<lambda>u a. [HumanMessage u, AIMessage a]) (nonblank (l # ls)) (a # as))"
        by (simp add: nonblank_Cons)
      then show ?thesis by blast
    qed
  qed
qed

lemma length_concat_pairs:
  "length us = length as \<Longrightarrow>
   length (concat (map2 (\<lambda>u a. [HumanMessage u, AIMessage a]) us as)) = 2 * length us"
  by (induction us as rule: list_induct2) simp_all

text \<open>
  Claim C5, as the code has it. After the turns of a session have completed, the
  \<open>chat_history\<close> is the initial one followed, in the order of the turns, by one user entry
  and one assistant entry for each turn whose input is not blank; a turn with a blank
  input completes and adds nothing. Its length is twice the number of turns with a
  non-blank input.
\<close>

theorem history_after_turns:
  assumes "main_loop C (store, s0) ls = Inr (store', s')"
  shows "(\<exists>answers. length answers = length (nonblank ls) \<and>
            chat_history s' =
              chat_history s0 @
              concat (map2 (\<lambda>u a. [HumanMessage u, AIMessage a]) (nonblank ls) answers)) \<and>
         length (chat_history s') = length (chat_history s0) + 2 * length (nonblank ls)"
proof -
  from main_loop_history [OF assms] obtain as where
    l: "length as = length (nonblank ls)" and
    h: "chat_history s' =
          chat_history s0 @ concat (map2 (\<lambda>u a. [HumanMessage u, AIMessage a]) (nonblank ls) as)"
    by auto
  from l have "length (concat (map2 (\<lambda>u a. [HumanMessage u, AIMessage a]) (nonblank ls) as))
               = 2 * length (nonblank ls)"
    by (simp add: length_concat_pairs)
  with h have "length (chat_history s') = length (chat_history s0) + 2 * length (nonblank ls)"
    by simp
  with l h show ?thesis by blast
qed

theorem history_after_turns_witness:
  "main_loop (scripted (Inr reply_prose) (Inr (lit ''ok''))) (MemorySaver, get_initial_state)
     [lit ''hi'', lit '' '']
     = Inr (MemorySaver(thread_id \<mapsto>
               \<lparr>user_input = lit '' '', chat_history = [HumanMessage (lit ''hi''), AIMessage (lit ''ok'')],
                tool_name = [], tool_input = JObject [], tool_result = [],
                final_answer = clarification\<rparr>),
            \<lparr>user_input = lit '' '', chat_history = [HumanMessage (lit ''hi''), AIMessage (lit ''ok'')],
             tool_name = [], tool_input = JObject [], tool_result = [], final_answer = []\<rparr>) \<and>
   nonblank [lit ''hi'', lit '' ''] = [lit ''hi''] \<and>
   length (chat_history
     \<lparr>user_input = lit '' '', chat_history = [HumanMessage (lit ''hi''), AIMessage (lit ''ok'')],
      tool_name = [], tool_input = JObject [], tool_result = [], final_answer = []\<rparr>)
     = length (chat_history get_initial_state) + 2 * length (nonblank [lit ''hi'', lit '' ''])"
proof -
  let ?C = "scripted (Inr reply_prose) (Inr (lit ''ok''))"
  have h: "main_loop ?C (MemorySaver, get_initial_state) [lit ''hi'', lit '' '']
     = Inr (MemorySaver(thread_id \<mapsto>
               \<lparr>user_input = lit '' '', chat_history = [HumanMessage (lit ''hi''), AIMessage (lit ''ok'')],
                tool_name = [], tool_input = JObject [], tool_result = [],
                final_answer = clarification\<rparr>),
            \<lparr>user_input = lit '' '', chat_history = [HumanMessage (lit ''hi''), AIMessage (lit ''ok'')],
             tool_name = [], tool_input = JObject [], tool_result = [], final_answer = []\<rparr>)"
    by (simp add: strip_samples not_exit_samples main_turn_def invoke_def run_graph_samples
          get_initial_state_def Let_def)
  have n: "nonblank [lit ''hi'', lit '' ''] = [lit ''hi'']"
    by (simp add: nonblank_Cons strip_samples not_exit_samples)
  from history_after_turns [OF h] h n show ?thesis
    by blast
qed

text \<open>
  Claim C5 as stated fails: one turn with a blank input completes, and the history is
  still empty, not of length two.
\<close>

theorem blank_turn_counterexample:
  "main_loop (scripted (Inr reply_prose) (Inr (lit ''ok''))) (MemorySaver, get_initial_state) [lit '' '']
     = Inr (MemorySaver(thread_id \<mapsto>
               \<lparr>user_input = lit '' '', chat_history = [], tool_name = [], tool_input = JObject [],
                tool_result = [], final_answer = clarification\<rparr>),
            \<lparr>user_input = lit '' '', chat_history = [], tool_name = [], tool_input = JObject [],
             tool_result = [], final_answer = []\<rparr>) \<and>
   length (turns [lit '' '']) = 1 \<and>
   length (chat_history
     \<lparr>user_input = lit '' '', chat_history = [], tool_name = [], tool_input = JObject [],
      tool_result = [], final_answer = []\<rparr>) \<noteq> 2 * 1"
  by (simp add: strip_samples not_exit_samples main_turn_def invoke_def run_graph_samples
        get_initial_state_def turns_def Let_def)

section \<open>Failure of Answer Synthesis\<close>

text \<open>
  Claim C2. When the model call of Answer Synthesis raises, the stage raises the same
  exception, the turn ends with it, and the checkpoint store is left as it was before the
  turn: no snapshot is written for the session, so the stored \<open>chat_history\<close> of the
  session is unchanged and holds no entry of the failed turn.
\<close>

theorem answer_failure_aborts_turn:
  assumes "think_node C s = Inr s1"
    and "(if strip (tool_name s1) \<noteq> [] then tool_node C s1 else Inr s1) = Inr s2"
    and "strip (user_input s2) \<noteq> []"
    and "llm C (answer_prompt s2) = Inl e"
  shows "answer_node C s2 = Inl e \<and>
         run_graph C s = Inl e \<and>
         invoke C store session_id s = (Inl e, store) \<and>
         snd (invoke C store session_id s) session_id = store session_id"
proof -
  from assms(3,4) have a: "answer_node C s2 = Inl e"
    by (simp add: answer_node_nonblank)
  with assms(1,2) have g: "run_graph C s = Inl e"
    by (auto simp: run_graph_eq split: if_splits)
  then have "invoke C store session_id s = (Inl e, store)"
    by (simp add: invoke_def)
  with a g show ?thesis by simp
qed

theorem answer_failure_aborts_turn_witness:
  "think_node (scripted (Inr reply_calculator) (Inl (Exception (lit ''timeout'')))) (asking (lit ''1+''))
     = Inr ((asking (lit ''1+''))\<lparr>tool_name := lit ''calculator'', tool_input := JObject []\<rparr>) \<and>
   invoke (scripted (Inr reply_calculator) (Inl (Exception (lit ''timeout''))))
     (MemorySaver(thread_id \<mapsto> asking (lit ''hi''))) thread_id (asking (lit ''1+''))
     = (Inl (Exception (lit ''timeout'')), MemorySaver(thread_id \<mapsto> asking (lit ''hi'')))"
proof -
  let ?C = "scripted (Inr reply_calculator) (Inl (Exception (lit ''timeout'')))"
  let ?s1 = "(asking (lit ''1+''))\<lparr>tool_name := lit ''calculator'', tool_input := JObject []\<rparr>"
  let ?s2 = "?s1\<lparr>tool_result := tool_error_text @ lit ''expression: Field required''\<rparr>"
  have t: "think_node ?C (asking (lit ''1+'')) = Inr ?s1"
    by (rule think_node_samples)
  have r: "(if strip (tool_name ?s1) \<noteq> [] then tool_node ?C ?s1 else Inr ?s1) = Inr ?s2"
    by (simp add: strip_samples tool_node_def tools_lookup calculator_invoke_samples)
  have u: "strip (user_input ?s2) \<noteq> []"
    by (simp add: strip_samples)
  have l: "llm ?C (answer_prompt ?s2) = Inl (Exception (lit ''timeout''))"
    by simp
  from answer_failure_aborts_turn [OF t r u l, of "MemorySaver(thread_id \<mapsto> asking (lit ''hi''))" thread_id] t
  show ?thesis by blast
qed

section \<open>The arithmetic evaluator\<close>




end
